theory Spec2Isabelle
  imports Complex_Main "HOL-Library.Sublist"
begin

section \<open>Python values used by \<^verbatim>\<open>resume_feedback_ai.py\<close>\<close>

text \<open>
  A Python \<^verbatim>\<open>str\<close> is a sequence of Unicode code points, so it is modelled as a list
  of code points (natural numbers), not as a list of bytes: \<^verbatim>\<open>str.strip()\<close> removes
  Unicode white space, and the messages of the program hold characters beyond ASCII.
  \<open>py\<close> reads an ASCII literal as such a string.
\<close>

type_synonym pystr = "nat list"

definition py :: "string \<Rightarrow> pystr" where
  "py s = map of_char s"

text \<open>
  The characters for which \<^verbatim>\<open>str.isspace()\<close> holds, which are the ones
  \<^verbatim>\<open>str.strip()\<close> removes (CPython's \<^verbatim>\<open>_PyUnicode_IsWhitespace\<close>). The
  interpreter is not part of the repository; the table is written out here.
\<close>

definition py_isspace :: "nat \<Rightarrow> bool" where
  "py_isspace c \<longleftrightarrow>
     (9 \<le> c \<and> c \<le> 13) \<or> (28 \<le> c \<and> c \<le> 32) \<or> c = 133 \<or> c = 160 \<or> c = 5760 \<or>
     (8192 \<le> c \<and> c \<le> 8202) \<or> c = 8232 \<or> c = 8233 \<or> c = 8239 \<or> c = 8287 \<or> c = 12288"

definition strip :: "pystr \<Rightarrow> pystr" where
  "strip s = rev (dropWhile py_isspace (rev (dropWhile py_isspace s)))"

definition startswith :: "pystr \<Rightarrow> pystr \<Rightarrow> bool" where
  "startswith s p = prefix p s"

text \<open>\<^verbatim>\<open>str(n)\<close> for a non-negative integer: its decimal digits.\<close>

function str_nat :: "nat \<Rightarrow> pystr" where
  "str_nat n = (if n < 10 then [48 + n] else str_nat (n div 10) @ [48 + n mod 10])"
  by pat_completeness auto
termination
  by (relation "measure id") auto

declare str_nat.simps [simp del]

text \<open>
  Exceptions. Both handlers of the program name a class: \<^verbatim>\<open>RequestException\<close> (of the
  HTTP library, with its subclasses such as \<^verbatim>\<open>HTTPError\<close>) and \<^verbatim>\<open>Exception\<close>. An
  exception is modelled by the class the handlers tell apart and by \<^verbatim>\<open>str(e)\<close>, the
  detail the messages print. Every exception of the model is an instance of
  \<^verbatim>\<open>Exception\<close>; interpreter exits (\<^verbatim>\<open>KeyboardInterrupt\<close>, \<^verbatim>\<open>SystemExit\<close>) are not
  modelled.
\<close>

datatype exn = RequestException pystr | OtherException pystr

primrec str_exn :: "exn \<Rightarrow> pystr" where
  "str_exn (RequestException m) = m"
| "str_exn (OtherException m) = m"

text \<open>
  The values \<^verbatim>\<open>response.json()\<close> can return. A dictionary is an association list read
  with \<open>map_of\<close>; its keys are strings, as in JSON.
\<close>

datatype pyfloat = Finite rat | Infinity bool | NaN

datatype pyval =
    PyNone
  | PyBool bool
  | PyInt int
  | PyFloat pyfloat
  | PyStr pystr
  | PyList "pyval list"
  | PyDict "(pystr \<times> pyval) list"

text \<open>Truth value of an object in a condition (\<^verbatim>\<open>if x:\<close>, \<^verbatim>\<open>a and b\<close>).\<close>

fun truthy :: "pyval \<Rightarrow> bool" where
  "truthy PyNone = False"
| "truthy (PyBool b) = b"
| "truthy (PyInt i) = (i \<noteq> 0)"
| "truthy (PyFloat (Finite q)) = (q \<noteq> 0)"
| "truthy (PyFloat (Infinity s)) = True"
| "truthy (PyFloat NaN) = True"
| "truthy (PyStr s) = (s \<noteq> [])"
| "truthy (PyList xs) = (xs \<noteq> [])"
| "truthy (PyDict kvs) = (kvs \<noteq> [])"

fun type_name :: "pyval \<Rightarrow> pystr" where
  "type_name PyNone = py ''NoneType''"
| "type_name (PyBool b) = py ''bool''"
| "type_name (PyInt i) = py ''int''"
| "type_name (PyFloat f) = py ''float''"
| "type_name (PyStr s) = py ''str''"
| "type_name (PyList xs) = py ''list''"
| "type_name (PyDict kvs) = py ''dict''"

text \<open>
  \<^verbatim>\<open>k in v\<close> for a string \<open>k\<close>: key membership in a dictionary, element membership in
  a list, substring test in a string, and a \<^verbatim>\<open>TypeError\<close> on anything else. The detail
  of the interpreter's own errors is worded as CPython 3.12 words it.
\<close>

fun py_in :: "pystr \<Rightarrow> pyval \<Rightarrow> exn + bool" where
  "py_in k (PyDict kvs) = Inr (map_of kvs k \<noteq> None)"
| "py_in k (PyList xs) = Inr (PyStr k \<in> set xs)"
| "py_in k (PyStr s) = Inr (sublist k s)"
| "py_in k v =
     Inl (OtherException (py ''argument of type '' @ [39] @ type_name v @ [39] @ py '' is not iterable''))"

text \<open>\<^verbatim>\<open>v[k]\<close> for a string \<open>k\<close> (one of the literals of the program).\<close>

fun getitem_str :: "pyval \<Rightarrow> pystr \<Rightarrow> exn + pyval" where
  "getitem_str (PyDict kvs) k =
     (case map_of kvs k of
        Some v \<Rightarrow> Inr v
      | None \<Rightarrow> Inl (OtherException ([39] @ k @ [39])))"
| "getitem_str (PyList xs) k =
     Inl (OtherException (py ''list indices must be integers or slices, not str''))"
| "getitem_str (PyStr s) k =
     Inl (OtherException (py ''string indices must be integers, not '' @ [39] @ py ''str'' @ [39]))"
| "getitem_str v k =
     Inl (OtherException ([39] @ type_name v @ [39] @ py '' object is not subscriptable''))"

text \<open>\<^verbatim>\<open>v[0]\<close>. No dictionary read from JSON has the key \<^verbatim>\<open>0\<close>.\<close>

fun getitem_0 :: "pyval \<Rightarrow> exn + pyval" where
  "getitem_0 (PyList xs) =
     (case xs of
        x # _ \<Rightarrow> Inr x
      | [] \<Rightarrow> Inl (OtherException (py ''list index out of range'')))"
| "getitem_0 (PyStr s) =
     (case s of
        c # _ \<Rightarrow> Inr (PyStr [c])
      | [] \<Rightarrow> Inl (OtherException (py ''string index out of range'')))"
| "getitem_0 (PyDict kvs) = Inl (OtherException (py ''0''))"
| "getitem_0 v =
     Inl (OtherException ([39] @ type_name v @ [39] @ py '' object is not subscriptable''))"

section \<open>The request, the response and the effects\<close>

definition NVIDIA_API_URL :: pystr where
  "NVIDIA_API_URL = py ''https://integrate.api.nvidia.com/v1/chat/completions''"

record chat_message =
  role :: pystr
  content :: pystr

record payload =
  model :: pystr
  messages :: "chat_message list"
  max_tokens :: int
  temperature :: rat
  top_p :: rat

record request =
  url :: pystr
  headers :: "(pystr \<times> pystr) list"
  json :: payload

text \<open>
  What the program reads of a response: the status line, the URL the error message
  names, and the outcome of \<^verbatim>\<open>response.json()\<close>, which is a value or an exception.
\<close>

record response =
  status_code :: nat
  reason :: pystr
  response_url :: pystr
  json_result :: "exn + pyval"

text \<open>
  \<^verbatim>\<open>Response.raise_for_status()\<close> of the HTTP library: it raises an \<^verbatim>\<open>HTTPError\<close>, a
  \<^verbatim>\<open>RequestException\<close>, for the status codes 400 to 599 and for no other.
\<close>

definition raise_for_status :: "response \<Rightarrow> exn + unit" where
  "raise_for_status r =
     (let http_error_msg =
        (if 400 \<le> status_code r \<and> status_code r < 500 then
           str_nat (status_code r) @ py '' Client Error: '' @ reason r @ py '' for url: '' @ response_url r
         else if 500 \<le> status_code r \<and> status_code r < 600 then
           str_nat (status_code r) @ py '' Server Error: '' @ reason r @ py '' for url: '' @ response_url r
         else [])
      in if http_error_msg \<noteq> [] then Inl (RequestException http_error_msg) else Inr ())"

text \<open>
  The effects of a run, in the order in which they happen: the calls that show something
  on the page, and the HTTP POST. The static page around the button (title, headers,
  style sheet, input widgets, the expander) is not modelled.
\<close>

datatype effect =
    StWarning pystr
  | StError pystr
  | StHeader pystr
  | StSuccess pystr
  | StMarkdown pyval
  | StInfo pystr
  | HttpPost request

fun posts :: "effect list \<Rightarrow> request list" where
  "posts [] = []"
| "posts (HttpPost r # es) = r # posts es"
| "posts (e # es) = posts es"

section \<open>\<^verbatim>\<open>extract_resume_text\<close>\<close>

definition no_readable_text_msg :: pystr where
  "no_readable_text_msg =
     [9888, 65039] @ py '' No readable text found in the PDF. It might be an image-only PDF.''
     @ py '' Consider converting it to a searchable PDF or try a different file.''"

definition extraction_error_msg :: "pystr \<Rightarrow> pystr" where
  "extraction_error_msg e =
     [128683] @ py '' **Error extracting text from PDF:** Please ensure it's a valid,''
     @ py '' readable PDF document. Details: '' @ e"

text \<open>
  The library call \<^verbatim>\<open>extract_text(pdf_file)\<close> is a parameter: it returns the text or
  raises. First the body of the \<^verbatim>\<open>try\<close>, then the function with its handler, which
  catches every \<^verbatim>\<open>Exception\<close>.
\<close>

definition extract_resume_text_try ::
  "('pdf \<Rightarrow> exn + pystr) \<Rightarrow> 'pdf \<Rightarrow> (exn + pystr) \<times> effect list" where
  "extract_resume_text_try extract_text pdf_file =
     (case extract_text pdf_file of
        Inl e \<Rightarrow> (Inl e, [])
      | Inr text \<Rightarrow>
          if strip text = [] then (Inr [], [StWarning no_readable_text_msg])
          else (Inr text, []))"

definition extract_resume_text ::
  "('pdf \<Rightarrow> exn + pystr) \<Rightarrow> 'pdf \<Rightarrow> pystr \<times> effect list" where
  "extract_resume_text extract_text pdf_file =
     (case extract_resume_text_try extract_text pdf_file of
        (Inr text, es) \<Rightarrow> (text, es)
      | (Inl e, es) \<Rightarrow> ([], es @ [StError (extraction_error_msg (str_exn e))]))"

section \<open>\<^verbatim>\<open>get_feedback_nvidia\<close>\<close>

definition api_key_error_msg :: pystr where
  "api_key_error_msg =
     [128683] @ py '' **API Key Error:** Your NVIDIA API Key is missing or invalid.''
     @ py '' Please ensure it's correctly set as an environment variable (e.g., in a `.env` file).''"

definition unexpected_format_msg :: pystr where
  "unexpected_format_msg =
     [9888, 65039]
     @ py '' Received an empty or unexpected response format from the AI. Please try again.''"

definition network_error_msg :: "pystr \<Rightarrow> pystr" where
  "network_error_msg e =
     [128683] @ py '' **Network or API Error:** '' @ e
     @ py ''. Please ensure your internet connection is stable and your API key is valid''
     @ py '' and has sufficient credits/access.''"

definition unexpected_error_msg :: "pystr \<Rightarrow> pystr" where
  "unexpected_error_msg e =
     [10060] @ py '' An unexpected error occurred while processing the AI response: '' @ e"

text \<open>The literal assigned to \<^verbatim>\<open>system_prompt_base\<close>: sixteen lines, each ended by a newline.\<close>

definition system_prompt_base :: pystr where
  "system_prompt_base = concat (map (\<lambda>l. l @ [10])
    [py ''You are a highly professional, empathetic, and constructive resume reviewer.''
       @ py '' Your goal is to help the user significantly improve their resume.''
       @ py '' Analyze the provided resume text thoroughly. Focus on the following aspects:'',
     [],
     py ''1.  **Overall Impact:** Does it make a strong first impression?'',
     py ''2.  **Clarity & Conciseness:** Is the language clear, and is it free of jargon or fluff?'',
     py ''3.  **Action Verbs:** Are strong action verbs used at the beginning of bullet points?'',
     py ''4.  **Quantifiable Achievements:** Are accomplishments quantified with numbers/data where possible?'',
     py ''5.  **Keywords & Industry Relevance:** Does it include relevant keywords for the target industry/role?'',
     py ''6.  **Structure & Formatting:** Is it well-organized and easy to read''
       @ py '' (e.g., consistent dates, clear sections)?'',
     py ''7.  **Tailoring:** Does it seem tailored to a specific job or industry?'',
     [],
     py ''Provide actionable feedback with specific examples. Suggest improvements for content,''
       @ py '' wording, and potential areas to expand or condense. Structure your feedback into''
       @ py '' the following distinct sections, using Markdown for clear formatting''
       @ py '' (e.g., bullet points, bolding, subheadings):'',
     [],
     py ''### Overall Summary'',
     py ''### Strengths '' @ [128170],
     py ''### Areas for Improvement '' @ [128161],
     py ''### Actionable Steps '' @ [128640]])"

text \<open>The clause of line 71, for the stripped role \<open>r\<close>.\<close>

definition special_consideration :: "pystr \<Rightarrow> pystr" where
  "special_consideration r =
     [10, 10] @ py ''**Special consideration:** The user is targeting a **'' @ r
     @ py ''** role. Please tailor your keyword and relevance analysis to this role.''"

text \<open>
  The value of \<^verbatim>\<open>system_prompt_base\<close> after lines 70 and 71. The role is \<^verbatim>\<open>None\<close> or a
  string.
\<close>

definition system_prompt :: "pystr option \<Rightarrow> pystr" where
  "system_prompt target_job_role =
     (case target_job_role of
        None \<Rightarrow> system_prompt_base
      | Some r \<Rightarrow>
          if r \<noteq> [] \<and> strip r \<noteq> [] then system_prompt_base @ special_consideration (strip r)
          else system_prompt_base)"

definition user_prompt :: "pystr \<Rightarrow> pystr" where
  "user_prompt resume_text = py ''Here is the resume text to review:'' @ [10, 10] @ resume_text"

definition build_request :: "pystr \<Rightarrow> pystr \<Rightarrow> pystr option \<Rightarrow> request" where
  "build_request api_key resume_text target_job_role =
     \<lparr>url = NVIDIA_API_URL,
      headers = [(py ''Authorization'', py ''Bearer '' @ api_key),
                 (py ''Content-Type'', py ''application/json'')],
      json = \<lparr>model = py ''meta/llama3-70b-instruct'',
              messages = [\<lparr>role = py ''system'', content = system_prompt target_job_role\<rparr>,
                          \<lparr>role = py ''user'', content = user_prompt resume_text\<rparr>],
              max_tokens = 1500,
              temperature = 5 / 10,
              top_p = 9 / 10\<rparr>\<rparr>"

text \<open>
  Lines 89 to 92, on the parsed body: \<open>Inr (Some c)\<close> is \<^verbatim>\<open>return c\<close>, \<open>Inr None\<close> falls
  through to the warning, \<open>Inl e\<close> is an exception raised by one of the tests. \<^verbatim>\<open>and\<close>
  evaluates its right operand only when the left one is true. A subscript that the source
  writes more than once (\<^verbatim>\<open>response_json["choices"]\<close>, \<^verbatim>\<open>first_choice["message"]\<close>) is
  read once here: reading has no effect and gives the same value each time.
\<close>

definition first_choice_content :: "pyval \<Rightarrow> exn + pyval option" where
  "first_choice_content response_json =
     (case py_in (py ''choices'') response_json of
        Inl e \<Rightarrow> Inl e
      | Inr False \<Rightarrow> Inr None
      | Inr True \<Rightarrow>
         (case getitem_str response_json (py ''choices'') of
            Inl e \<Rightarrow> Inl e
          | Inr choices \<Rightarrow>
             if \<not> truthy choices then Inr None
             else
              (case getitem_0 choices of
                 Inl e \<Rightarrow> Inl e
               | Inr first_choice \<Rightarrow>
                  (case py_in (py ''message'') first_choice of
                     Inl e \<Rightarrow> Inl e
                   | Inr False \<Rightarrow> Inr None
                   | Inr True \<Rightarrow>
                      (case getitem_str first_choice (py ''message'') of
                         Inl e \<Rightarrow> Inl e
                       | Inr message \<Rightarrow>
                          (case py_in (py ''content'') message of
                             Inl e \<Rightarrow> Inl e
                           | Inr False \<Rightarrow> Inr None
                           | Inr True \<Rightarrow>
                              (case getitem_str message (py ''content'') of
                                 Inl e \<Rightarrow> Inl e
                               | Inr c \<Rightarrow> Inr (Some c))))))))"

text \<open>
  The body of the \<^verbatim>\<open>try\<close> (lines 85 to 95). \<^verbatim>\<open>requests.post\<close> is a parameter: it
  returns a response or raises.
\<close>

definition get_feedback_nvidia_try ::
  "(request \<Rightarrow> exn + response) \<Rightarrow> request \<Rightarrow> (exn + pyval) \<times> effect list" where
  "get_feedback_nvidia_try post req =
     (case post req of
        Inl e \<Rightarrow> (Inl e, [HttpPost req])
      | Inr response \<Rightarrow>
         (case raise_for_status response of
            Inl e \<Rightarrow> (Inl e, [HttpPost req])
          | Inr _ \<Rightarrow>
             (case json_result response of
                Inl e \<Rightarrow> (Inl e, [HttpPost req])
              | Inr response_json \<Rightarrow>
                 (case first_choice_content response_json of
                    Inl e \<Rightarrow> (Inl e, [HttpPost req])
                  | Inr (Some c) \<Rightarrow> (Inr c, [HttpPost req])
                  | Inr None \<Rightarrow> (Inr PyNone, [HttpPost req, StWarning unexpected_format_msg])))))"

text \<open>
  The function. \<open>API_KEY\<close> is the module's global, \<^verbatim>\<open>None\<close> or a string as
  \<^verbatim>\<open>os.getenv\<close> returns it. The result is the returned object and the effects.
\<close>

definition get_feedback_nvidia ::
  "pystr option \<Rightarrow> (request \<Rightarrow> exn + response) \<Rightarrow> pystr \<Rightarrow> pystr option \<Rightarrow> pyval \<times> effect list" where
  "get_feedback_nvidia API_KEY post resume_text target_job_role =
     (case API_KEY of
        None \<Rightarrow> (PyNone, [StError api_key_error_msg])
      | Some k \<Rightarrow>
          if k = [] \<or> k = py ''nvapi-YOUR_ACTUAL_API_KEY_HERE'' \<or> startswith k (py ''nvapi-ziMpyqbV'')
          then (PyNone, [StError api_key_error_msg])
          else
           (case get_feedback_nvidia_try post (build_request k resume_text target_job_role) of
              (Inr v, es) \<Rightarrow> (v, es)
            | (Inl (RequestException e), es) \<Rightarrow> (PyNone, es @ [StError (network_error_msg e)])
            | (Inl (OtherException e), es) \<Rightarrow> (PyNone, es @ [StError (unexpected_error_msg e)])))"

text \<open>The default of the second parameter, and the call that leaves it out.\<close>

definition target_job_role_default :: "pystr option" where
  "target_job_role_default = None"

definition get_feedback_nvidia_1 ::
  "pystr option \<Rightarrow> (request \<Rightarrow> exn + response) \<Rightarrow> pystr \<Rightarrow> pyval \<times> effect list" where
  "get_feedback_nvidia_1 API_KEY post resume_text =
     get_feedback_nvidia API_KEY post resume_text target_job_role_default"

section \<open>The pipeline behind the button\<close>

definition feedback_header :: pystr where
  "feedback_header = [128221] @ py '' Your AI-Powered Resume Feedback:''"

definition feedback_success :: pystr where
  "feedback_success = [127881] @ py '' Feedback Generated Successfully!''"

definition feedback_info :: pystr where
  "feedback_info =
     [128161] @ py '' **Remember:** This is AI-generated feedback. Always review it critically''
     @ py '' and tailor your resume to specific job applications.''
     @ py '' Human review is always recommended!''"

text \<open>Lines 187 to 196: what a click on the button runs, for the uploaded file and the role typed.\<close>

definition main_pipeline ::
  "pystr option \<Rightarrow> ('pdf \<Rightarrow> exn + pystr) \<Rightarrow> (request \<Rightarrow> exn + response) \<Rightarrow> 'pdf \<Rightarrow> pystr \<Rightarrow>
   effect list" where
  "main_pipeline API_KEY extract_text post uploaded_file target_role =
     (case extract_resume_text extract_text uploaded_file of
        (resume_text, es1) \<Rightarrow>
          if resume_text \<noteq> [] then
            (case get_feedback_nvidia API_KEY post resume_text (Some target_role) of
               (feedback, es2) \<Rightarrow>
                 if truthy feedback then
                   es1 @ es2 @ [StHeader feedback_header, StSuccess feedback_success,
                                StMarkdown feedback, StInfo feedback_info]
                 else es1 @ es2)
          else es1)"

text \<open>Lines 181 to 185: nothing runs without an uploaded file and a click.\<close>

definition main ::
  "pystr option \<Rightarrow> ('pdf \<Rightarrow> exn + pystr) \<Rightarrow> (request \<Rightarrow> exn + response) \<Rightarrow> 'pdf option \<Rightarrow> bool \<Rightarrow>
   pystr \<Rightarrow> effect list" where
  "main API_KEY extract_text post uploaded_file clicked target_role =
     (case uploaded_file of
        None \<Rightarrow> []
      | Some f \<Rightarrow>
          if clicked then main_pipeline API_KEY extract_text post f target_role else [])"

section \<open>The response shape of the interface, and stand-ins for the libraries\<close>

text \<open>
  The success response the interface description expects: a JSON object with a
  \<^verbatim>\<open>choices\<close> array whose first element has a \<^verbatim>\<open>message.content\<close> string.
\<close>

definition expected_shape :: "pyval \<Rightarrow> bool" where
  "expected_shape body =
     (case body of
        PyDict kvs \<Rightarrow>
          (case map_of kvs (py ''choices'') of
             Some (PyList (PyDict first_choice # _)) \<Rightarrow>
               (case map_of first_choice (py ''message'') of
                  Some (PyDict message) \<Rightarrow>
                    (case map_of message (py ''content'') of
                       Some (PyStr _) \<Rightarrow> True
                     | _ \<Rightarrow> False)
                | _ \<Rightarrow> False)
           | _ \<Rightarrow> False)
      | _ \<Rightarrow> False)"

text \<open>
  Terms for a body that has not the expected shape. \<open>object_member k v\<close> is the value
  of the member \<open>k\<close> when \<open>v\<close> is an object that has it. \<open>lacks k v\<close> says that \<open>v\<close> is
  a value on which the question \<^verbatim>\<open>k in v\<close> has an answer, and the answer is no: an
  object without the member, an array without the string among its elements, a string
  without it as a substring. \<open>first_element v\<close> is the first element of a non-empty
  array, and the first character of a non-empty string.
\<close>

definition object_member :: "pystr \<Rightarrow> pyval \<Rightarrow> pyval option" where
  "object_member k v = (case v of PyDict kvs \<Rightarrow> map_of kvs k | _ \<Rightarrow> None)"

definition lacks :: "pystr \<Rightarrow> pyval \<Rightarrow> bool" where
  "lacks k v =
     (case v of
        PyDict kvs \<Rightarrow> map_of kvs k = None
      | PyList xs \<Rightarrow> PyStr k \<notin> set xs
      | PyStr s \<Rightarrow> \<not> sublist k s
      | _ \<Rightarrow> False)"

definition first_element :: "pyval \<Rightarrow> pyval option" where
  "first_element v =
     (case v of
        PyList (x # _) \<Rightarrow> Some x
      | PyStr (c # _) \<Rightarrow> Some (PyStr [c])
      | _ \<Rightarrow> None)"

text \<open>
  The value at \<^verbatim>\<open>choices[0].message.content\<close>, of any type, when the body is an object
  whose \<^verbatim>\<open>choices\<close> is an array that starts with an object whose \<^verbatim>\<open>message\<close> is an
  object with that member. The expected shape asks for a string there.
\<close>

definition content_of :: "pyval \<Rightarrow> pyval option" where
  "content_of body =
     (case object_member (py ''choices'') body of
        Some (PyList (first_choice # _)) \<Rightarrow>
          (case object_member (py ''message'') first_choice of
             Some message \<Rightarrow> object_member (py ''content'') message
           | None \<Rightarrow> None)
      | _ \<Rightarrow> None)"

text \<open>
  A part of the path is missing: \<^verbatim>\<open>choices\<close> is lacking, or its value counts as
  false (an empty array, \<^verbatim>\<open>null\<close>), or the first choice lacks \<^verbatim>\<open>message\<close>, or the
  message lacks \<^verbatim>\<open>content\<close>.
\<close>

definition missing_part :: "pyval \<Rightarrow> bool" where
  "missing_part body \<longleftrightarrow>
     lacks (py ''choices'') body \<or>
     (case object_member (py ''choices'') body of
        None \<Rightarrow> False
      | Some choices \<Rightarrow>
          \<not> truthy choices \<or>
          (case first_element choices of
             None \<Rightarrow> False
           | Some first_choice \<Rightarrow>
               lacks (py ''message'') first_choice \<or>
               (case object_member (py ''message'') first_choice of
                  None \<Rightarrow> False
                | Some message \<Rightarrow> lacks (py ''content'') message)))"

text \<open>
  A library call that returns a given value to every argument, and one that raises a
  given exception: the simulated extraction and HTTP exchanges of the examples.
\<close>

definition returns :: "'b \<Rightarrow> 'a \<Rightarrow> exn + 'b" where
  "returns v x = Inr v"

definition raises :: "exn \<Rightarrow> 'a \<Rightarrow> exn + 'b" where
  "raises e x = Inl e"

section \<open>Auxiliary facts\<close>

lemma strip_blank: "\<forall>c\<in>set s. py_isspace c \<Longrightarrow> strip s = []"
  by (auto simp: strip_def dest: set_dropWhileD)

lemma strip_eq_Nil_iff: "strip s = [] \<longleftrightarrow> (\<forall>c\<in>set s. py_isspace c)"
proof
  assume "strip s = []"
  then have "dropWhile py_isspace (rev (dropWhile py_isspace s)) = []"
    by (simp add: strip_def)
  then have "\<forall>c\<in>set (dropWhile py_isspace s). py_isspace c"
    by simp
  then have "dropWhile py_isspace s = []"
    by (metis hd_dropWhile hd_in_set)
  then show "\<forall>c\<in>set s. py_isspace c"
    by simp
qed (rule strip_blank)

lemma strip_unchanged:
  assumes "s \<noteq> []" "\<not> py_isspace (hd s)" "\<not> py_isspace (last s)"
  shows "strip s = s"
proof -
  have "dropWhile py_isspace s = s"
    using assms(1,2) by (cases s) auto
  moreover have "dropWhile py_isspace (rev s) = rev s"
    using assms(1,3) by (cases "rev s") (auto simp: last_rev[symmetric] simp del: last_rev)
  ultimately show ?thesis by (simp add: strip_def)
qed

lemma posts_append: "posts (xs @ ys) = posts xs @ posts ys"
  by (induction xs rule: posts.induct) auto

lemma extract_resume_text_cases:
  "extract_resume_text extract_text f =
     (case extract_text f of
        Inl e \<Rightarrow> ([], [StError (extraction_error_msg (str_exn e))])
      | Inr text \<Rightarrow> if strip text = [] then ([], [StWarning no_readable_text_msg]) else (text, []))"
  by (simp add: extract_resume_text_def extract_resume_text_try_def split: sum.splits)


lemma get_feedback_nvidia_accepted:
  assumes "k \<noteq> []" "k \<noteq> py ''nvapi-YOUR_ACTUAL_API_KEY_HERE''"
    and "\<not> startswith k (py ''nvapi-ziMpyqbV'')"
  shows "get_feedback_nvidia (Some k) post resume_text target_job_role =
     (case get_feedback_nvidia_try post (build_request k resume_text target_job_role) of
        (Inr v, es) \<Rightarrow> (v, es)
      | (Inl (RequestException e), es) \<Rightarrow> (PyNone, es @ [StError (network_error_msg e)])
      | (Inl (OtherException e), es) \<Rightarrow> (PyNone, es @ [StError (unexpected_error_msg e)]))"
  using assms by (simp add: get_feedback_nvidia_def)

lemma posts_get_feedback_nvidia_try: "posts (snd (get_feedback_nvidia_try post req)) = [req]"
  by (simp add: get_feedback_nvidia_try_def split: sum.splits option.splits)

lemma posts_get_feedback_nvidia:
  assumes "k \<noteq> []" "k \<noteq> py ''nvapi-YOUR_ACTUAL_API_KEY_HERE''"
    and "\<not> startswith k (py ''nvapi-ziMpyqbV'')"
  shows "posts (snd (get_feedback_nvidia (Some k) post resume_text target_job_role)) =
     [build_request k resume_text target_job_role]"
proof -
  let ?req = "build_request k resume_text target_job_role"
  obtain r es where t: "get_feedback_nvidia_try post ?req = (r, es)"
    by (cases "get_feedback_nvidia_try post ?req")
  then have "posts es = [?req]"
    using posts_get_feedback_nvidia_try [of post ?req] by simp
  then show ?thesis
    using t by (simp add: get_feedback_nvidia_accepted [OF assms] posts_append
        split: sum.splits exn.splits)
qed

lemma get_feedback_nvidia_leaves_effect:
  "snd (get_feedback_nvidia API_KEY post resume_text target_job_role) = [StError api_key_error_msg]
   \<or> posts (snd (get_feedback_nvidia API_KEY post resume_text target_job_role)) \<noteq> []"
proof (cases "\<exists>k. API_KEY = Some k \<and> k \<noteq> [] \<and> k \<noteq> py ''nvapi-YOUR_ACTUAL_API_KEY_HERE''
    \<and> \<not> startswith k (py ''nvapi-ziMpyqbV'')")
  case True
  then show ?thesis
    using posts_get_feedback_nvidia by fastforce
next
  case False
  then show ?thesis
    by (cases API_KEY) (auto simp: get_feedback_nvidia_def)
qed

lemma system_prompt_nonblank:
  "\<not> (\<forall>c\<in>set r. py_isspace c) \<Longrightarrow>
     system_prompt (Some r) = system_prompt_base @ special_consideration (strip r)"
  by (auto simp: system_prompt_def strip_eq_Nil_iff)

lemma system_prompt_blank:
  "\<forall>c\<in>set r. py_isspace c \<Longrightarrow> system_prompt (Some r) = system_prompt_base"
  by (simp add: system_prompt_def strip_blank)

lemma system_prompt_None: "system_prompt None = system_prompt_base"
  by (simp add: system_prompt_def)

lemma role_in_clause: "sublist a (system_prompt_base @ special_consideration a)"
proof -
  have "sublist a (special_consideration a)"
    unfolding special_consideration_def by (metis append.assoc sublist_appendI)
  then show ?thesis
    by (metis sublist_append_leftI sublist_order.order_trans)
qed

lemma clause_changes_prompt: "system_prompt_base @ special_consideration a \<noteq> system_prompt None"
  by (simp add: system_prompt_None special_consideration_def)

lemma special_consideration_inject:
  "special_consideration a = special_consideration b \<longleftrightarrow> a = b"
  by (simp add: special_consideration_def)

lemma system_message_of_request:
  "messages (json (build_request k resume_text target_job_role)) =
     [\<lparr>role = py ''system'', content = system_prompt target_job_role\<rparr>,
      \<lparr>role = py ''user'', content = user_prompt resume_text\<rparr>]"
  by (simp add: build_request_def)

lemma raise_for_status_passes:
  "status_code r < 400 \<or> 600 \<le> status_code r \<Longrightarrow> raise_for_status r = Inr ()"
  by (auto simp: raise_for_status_def)

lemma raise_for_status_raises:
  assumes "400 \<le> status_code r" and "status_code r < 600"
  shows "raise_for_status r =
     Inl (RequestException (str_nat (status_code r)
       @ (if status_code r < 500 then py '' Client Error: '' else py '' Server Error: '')
       @ reason r @ py '' for url: '' @ response_url r))"
proof -
  have "py '' Client Error: '' \<noteq> []" and "py '' Server Error: '' \<noteq> []"
    by (simp_all add: py_def)
  then show ?thesis
    using assms by (simp add: raise_for_status_def)
qed

lemma get_feedback_nvidia_success:
  assumes "k \<noteq> []" "k \<noteq> py ''nvapi-YOUR_ACTUAL_API_KEY_HERE''"
    and "\<not> startswith k (py ''nvapi-ziMpyqbV'')"
    and "post (build_request k resume_text target_job_role) = Inr resp"
    and "status_code resp < 400 \<or> 600 \<le> status_code resp"
    and "json_result resp = Inr body"
  shows "get_feedback_nvidia (Some k) post resume_text target_job_role =
     (case first_choice_content body of
        Inl (RequestException e) \<Rightarrow>
          (PyNone, [HttpPost (build_request k resume_text target_job_role),
                    StError (network_error_msg e)])
      | Inl (OtherException e) \<Rightarrow>
          (PyNone, [HttpPost (build_request k resume_text target_job_role),
                    StError (unexpected_error_msg e)])
      | Inr (Some c) \<Rightarrow> (c, [HttpPost (build_request k resume_text target_job_role)])
      | Inr None \<Rightarrow>
          (PyNone, [HttpPost (build_request k resume_text target_job_role),
                    StWarning unexpected_format_msg]))"
  using assms(4,6) raise_for_status_passes [OF assms(5)]
  by (simp add: get_feedback_nvidia_accepted [OF assms(1-3)] get_feedback_nvidia_try_def
      split: sum.splits exn.splits option.splits)

lemma lacks_test: "lacks k v \<Longrightarrow> py_in k v = Inr False"
  by (cases v) (auto simp: lacks_def)

lemma object_member_test:
  "object_member k v = Some w \<Longrightarrow> py_in k v = Inr True \<and> getitem_str v k = Inr w"
  by (cases v) (auto simp: object_member_def)

lemma other_test_raises:
  assumes "\<not> lacks k v" and "object_member k v = None"
  shows "(\<exists>e. py_in k v = Inl (OtherException e))
    \<or> (py_in k v = Inr True \<and> (\<exists>e. getitem_str v k = Inl (OtherException e)))"
  using assms by (cases v) (auto simp: lacks_def object_member_def)

lemma first_element_read: "first_element v = Some x \<Longrightarrow> getitem_0 v = Inr x"
  by (cases v) (auto simp: first_element_def split: list.splits)

lemma no_first_element_raises:
  "truthy v \<Longrightarrow> first_element v = None \<Longrightarrow> \<exists>e. getitem_0 v = Inl (OtherException e)"
  by (cases v) (auto simp: first_element_def split: list.splits)

lemma content_of_Some:
  "content_of body = Some c \<longleftrightarrow>
     (\<exists>kvs first_choice more message.
        body = PyDict kvs
        \<and> map_of kvs (py ''choices'') = Some (PyList (PyDict first_choice # more))
        \<and> map_of first_choice (py ''message'') = Some (PyDict message)
        \<and> map_of message (py ''content'') = Some c)"
proof
  assume a: "content_of body = Some c"
  then obtain kvs where b: "body = PyDict kvs"
    by (cases body) (auto simp: content_of_def object_member_def)
  from a b obtain fc more where c: "map_of kvs (py ''choices'') = Some (PyList (fc # more))"
    by (auto simp: content_of_def object_member_def split: option.splits pyval.splits list.splits)
  from a b c obtain first_choice where f: "fc = PyDict first_choice"
    by (cases fc) (auto simp: content_of_def object_member_def)
  from a b c f obtain m where m: "map_of first_choice (py ''message'') = Some m"
    by (auto simp: content_of_def object_member_def split: option.splits)
  from a b c f m obtain message where mm: "m = PyDict message"
    by (cases m) (auto simp: content_of_def object_member_def)
  from a b c f m mm have "map_of message (py ''content'') = Some c"
    by (simp add: content_of_def object_member_def)
  with b c f m mm
  show "\<exists>kvs first_choice more message.
        body = PyDict kvs
        \<and> map_of kvs (py ''choices'') = Some (PyList (PyDict first_choice # more))
        \<and> map_of first_choice (py ''message'') = Some (PyDict message)
        \<and> map_of message (py ''content'') = Some c"
    by blast
next
  assume "\<exists>kvs first_choice more message.
        body = PyDict kvs
        \<and> map_of kvs (py ''choices'') = Some (PyList (PyDict first_choice # more))
        \<and> map_of first_choice (py ''message'') = Some (PyDict message)
        \<and> map_of message (py ''content'') = Some c"
  then show "content_of body = Some c"
    by (auto simp: content_of_def object_member_def)
qed

lemma expected_shape_content:
  "expected_shape body \<longleftrightarrow> (\<exists>s. content_of body = Some (PyStr s))"
proof
  assume e: "expected_shape body"
  then obtain kvs where 1: "body = PyDict kvs"
    by (cases body) (auto simp: expected_shape_def)
  from e 1 obtain ch where 2: "map_of kvs (py ''choices'') = Some ch"
    by (cases "map_of kvs (py ''choices'')") (auto simp: expected_shape_def)
  from e 1 2 obtain xs where 3: "ch = PyList xs"
    by (cases ch) (auto simp: expected_shape_def)
  from e 1 2 3 obtain fc more where 4: "xs = fc # more"
    by (cases xs) (auto simp: expected_shape_def)
  from e 1 2 3 4 obtain first_choice where 5: "fc = PyDict first_choice"
    by (cases fc) (auto simp: expected_shape_def)
  from e 1 2 3 4 5 obtain m where 6: "map_of first_choice (py ''message'') = Some m"
    by (cases "map_of first_choice (py ''message'')") (auto simp: expected_shape_def)
  from e 1 2 3 4 5 6 obtain message where 7: "m = PyDict message"
    by (cases m) (auto simp: expected_shape_def)
  from e 1 2 3 4 5 6 7 obtain c where 8: "map_of message (py ''content'') = Some c"
    by (cases "map_of message (py ''content'')") (auto simp: expected_shape_def)
  from e 1 2 3 4 5 6 7 8 obtain s where 9: "c = PyStr s"
    by (cases c) (auto simp: expected_shape_def)
  from 1 2 3 4 5 6 7 8 9 have "content_of body = Some (PyStr s)"
    by (simp add: content_of_def object_member_def)
  then show "\<exists>s. content_of body = Some (PyStr s)" ..
next
  assume "\<exists>s. content_of body = Some (PyStr s)"
  then show "expected_shape body"
    unfolding content_of_Some by (auto simp: expected_shape_def)
qed

lemma missing_part_no_content: "missing_part body \<Longrightarrow> content_of body = None"
  by (auto simp: missing_part_def content_of_def lacks_def object_member_def first_element_def
      split: pyval.splits option.splits list.splits)

lemma missing_part_falls_through:
  assumes "missing_part body"
  shows "first_choice_content body = Inr None"
proof (cases "lacks (py ''choices'') body")
  case True
  then show ?thesis
    by (simp add: first_choice_content_def lacks_test)
next
  case False
  then obtain choices where ch: "object_member (py ''choices'') body = Some choices"
    and rest: "\<not> truthy choices \<or>
          (case first_element choices of
             None \<Rightarrow> False
           | Some first_choice \<Rightarrow>
               lacks (py ''message'') first_choice \<or>
               (case object_member (py ''message'') first_choice of
                  None \<Rightarrow> False
                | Some message \<Rightarrow> lacks (py ''content'') message))"
    using assms by (auto simp: missing_part_def split: option.splits)
  note t1 = object_member_test [OF ch]
  show ?thesis
  proof (cases "truthy choices")
    case False
    then show ?thesis
      using t1 by (simp add: first_choice_content_def)
  next
    case True
    then obtain first_choice where fe: "first_element choices = Some first_choice"
      and rest2: "lacks (py ''message'') first_choice \<or>
               (case object_member (py ''message'') first_choice of
                  None \<Rightarrow> False
                | Some message \<Rightarrow> lacks (py ''content'') message)"
      using rest by (auto split: option.splits)
    note t2 = first_element_read [OF fe]
    show ?thesis
    proof (cases "lacks (py ''message'') first_choice")
      case True
      then show ?thesis
        using t1 t2 \<open>truthy choices\<close> by (simp add: first_choice_content_def lacks_test)
    next
      case False
      then obtain message where m: "object_member (py ''message'') first_choice = Some message"
        and lm: "lacks (py ''content'') message"
        using rest2 by (auto split: option.splits)
      show ?thesis
        using t1 t2 \<open>truthy choices\<close> object_member_test [OF m] lacks_test [OF lm]
        by (simp add: first_choice_content_def)
    qed
  qed
qed


lemma other_bodies_raise:
  assumes "\<not> missing_part body" and "content_of body = None"
  shows "\<exists>e. first_choice_content body = Inl (OtherException e)"
proof (cases "object_member (py ''choices'') body")
  case None
  then show ?thesis
    using assms(1) other_test_raises [of "py ''choices''" body]
    by (auto simp: missing_part_def first_choice_content_def)
next
  case (Some choices)
  note t1 = object_member_test [OF Some]
  have tr: "truthy choices"
    using assms(1) Some by (simp add: missing_part_def)
  show ?thesis
  proof (cases "first_element choices")
    case None
    then show ?thesis
      using t1 tr no_first_element_raises [OF tr None]
      by (auto simp: first_choice_content_def)
  next
    case fe: (Some first_choice)
    note t2 = first_element_read [OF fe]
    have nl: "\<not> lacks (py ''message'') first_choice"
      using assms(1) Some fe by (simp add: missing_part_def)
    show ?thesis
    proof (cases "object_member (py ''message'') first_choice")
      case None
      then show ?thesis
        using t1 t2 tr other_test_raises [OF nl None]
        by (auto simp: first_choice_content_def)
    next
      case m: (Some message)
      have nlc: "\<not> lacks (py ''content'') message"
        using assms(1) Some fe m by (simp add: missing_part_def)
      have "choices = PyList (first_choice # tl (case choices of PyList xs \<Rightarrow> xs | _ \<Rightarrow> []))"
        using fe m
        by (cases choices)
          (auto simp: first_element_def object_member_def split: list.splits)
      then have nc: "object_member (py ''content'') message = None"
        using assms(2) Some m
        by (cases choices) (auto simp: content_of_def split: list.splits)
      show ?thesis
        using t1 t2 tr object_member_test [OF m] other_test_raises [OF nlc nc]
        by (auto simp: first_choice_content_def)
    qed
  qed
qed

section \<open>Empty extraction\<close>

text \<open>
  Claim C1. When the library returns a text that is empty or holds white space only, a
  run of the pipeline shows the warning about the unreadable PDF and does nothing else:
  the warning is the only effect, so no request is built or posted.
  \<open>get_feedback_nvidia\<close> is not called, since each of its calls leaves the API key
  error or a POST among the effects (\<open>get_feedback_nvidia_leaves_effect\<close>).
\<close>

theorem blank_text_ends_at_warning:
  assumes "extract_text f = Inr text" and "\<forall>c\<in>set text. py_isspace c"
  shows "main API_KEY extract_text post (Some f) True target_role = [StWarning no_readable_text_msg]
    \<and> posts (main API_KEY extract_text post (Some f) True target_role) = []"
  using assms
  by (simp add: main_def main_pipeline_def extract_resume_text_cases strip_blank)

theorem blank_text_ends_at_warning_witness:
  "main None (returns [32, 10, 160]) (raises (RequestException [])) (Some ()) True
       (py ''Data Scientist'') = [StWarning no_readable_text_msg]
   \<and> posts (main None (returns [32, 10, 160]) (raises (RequestException [])) (Some ()) True
       (py ''Data Scientist'')) = []"
  using blank_text_ends_at_warning [of "returns [32, 10, 160]" "()" "[32, 10, 160]"]
  by (simp add: py_isspace_def returns_def)

section \<open>The credential check\<close>

text \<open>
  Claim C2. When the key is missing, empty, the placeholder of the documentation, or
  starts with the revoked prefix, \<open>get_feedback_nvidia\<close> shows the API key error,
  returns \<^verbatim>\<open>None\<close> and posts nothing.
\<close>

theorem unusable_credential_no_request:
  assumes "API_KEY = None \<or> API_KEY = Some [] \<or>
     API_KEY = Some (py ''nvapi-YOUR_ACTUAL_API_KEY_HERE'') \<or>
     (\<exists>k. API_KEY = Some k \<and> prefix (py ''nvapi-ziMpyqbV'') k)"
  shows "get_feedback_nvidia API_KEY post resume_text target_job_role =
       (PyNone, [StError api_key_error_msg])
    \<and> posts (snd (get_feedback_nvidia API_KEY post resume_text target_job_role)) = []"
  using assms by (auto simp: get_feedback_nvidia_def startswith_def)

theorem unusable_credential_no_request_witness:
  "get_feedback_nvidia (Some (py ''nvapi-ziMpyqbV0123'')) (raises (RequestException []))
       (py ''Jane Doe'') None = (PyNone, [StError api_key_error_msg])
   \<and> posts (snd (get_feedback_nvidia (Some (py ''nvapi-ziMpyqbV0123'')) (raises (RequestException []))
       (py ''Jane Doe'') None)) = []"
  using unusable_credential_no_request [of "Some (py ''nvapi-ziMpyqbV0123'')"]
  by (simp add: py_def)

section \<open>The request that is built\<close>

text \<open>
  Claim C3 says that every document with a non-empty extracted text leads to exactly one
  request. The credential check comes first: with no key in the environment the
  text \<^verbatim>\<open>Jane Doe\<close> is extracted and no request is built.
\<close>

theorem one_request_counterexample:
  "fst (extract_resume_text (returns (py ''Jane Doe'')) ()) = py ''Jane Doe''
   \<and> py ''Jane Doe'' \<noteq> []
   \<and> posts (main None (returns (py ''Jane Doe'')) (raises (RequestException [])) (Some ()) True [])
       = []"
  by (simp add: main_def main_pipeline_def extract_resume_text_cases get_feedback_nvidia_def
      strip_def py_def py_isspace_def returns_def)

text \<open>
  Claim C3, amended. When the extracted text is not empty and the key passes the
  credential check, a run posts exactly one request, whatever the answer is; its user
  message is the preamble followed by the extracted text, unchanged and whole, so the
  text is a substring of it.
\<close>

theorem one_request_with_text_verbatim:
  assumes "extract_resume_text extract_text f = (text, es)" and "text \<noteq> []"
    and "k \<noteq> []" and "k \<noteq> py ''nvapi-YOUR_ACTUAL_API_KEY_HERE''"
    and "\<not> startswith k (py ''nvapi-ziMpyqbV'')"
  shows "posts (main (Some k) extract_text post (Some f) True target_role) =
       [build_request k text (Some target_role)]
    \<and> map content (filter (\<lambda>m. role m = py ''user'')
         (messages (json (build_request k text (Some target_role))))) =
       [py ''Here is the resume text to review:'' @ [10, 10] @ text]
    \<and> sublist text (py ''Here is the resume text to review:'' @ [10, 10] @ text)"
proof -
  have es: "posts es = []"
    using assms(1,2)
    by (auto simp: extract_resume_text_cases split: sum.splits if_splits)
  obtain v es2 where g: "get_feedback_nvidia (Some k) post text (Some target_role) = (v, es2)"
    by (cases "get_feedback_nvidia (Some k) post text (Some target_role)")
  then have es2: "posts es2 = [build_request k text (Some target_role)]"
    using posts_get_feedback_nvidia [OF assms(3-5), of post "text" "Some target_role"] by simp
  have "posts (main (Some k) extract_text post (Some f) True target_role) =
       [build_request k text (Some target_role)]"
    using assms(1,2) g es es2 by (simp add: main_def main_pipeline_def posts_append)
  moreover have "map content (filter (\<lambda>m. role m = py ''user'')
         (messages (json (build_request k text (Some target_role))))) =
       [py ''Here is the resume text to review:'' @ [10, 10] @ text]"
    by (simp add: system_message_of_request user_prompt_def py_def)
  moreover have "sublist text (py ''Here is the resume text to review:'' @ [10, 10] @ text)"
    by (metis append.assoc sublist_append_leftI)
  ultimately show ?thesis by simp
qed

theorem one_request_with_text_verbatim_witness:
  "posts (main (Some (py ''nvapi-abc'')) (returns (py ''Jane Doe'')) (raises (RequestException []))
       (Some ()) True []) = [build_request (py ''nvapi-abc'') (py ''Jane Doe'') (Some [])]
   \<and> map content (filter (\<lambda>m. role m = py ''user'')
         (messages (json (build_request (py ''nvapi-abc'') (py ''Jane Doe'') (Some []))))) =
       [py ''Here is the resume text to review:'' @ [10, 10] @ py ''Jane Doe'']
   \<and> sublist (py ''Jane Doe'') (py ''Here is the resume text to review:'' @ [10, 10] @ py ''Jane Doe'')"
proof -
  have e: "extract_resume_text (returns (py ''Jane Doe'')) () = (py ''Jane Doe'', [])"
    by (simp add: extract_resume_text_cases strip_def py_def py_isspace_def returns_def)
  have k: "py ''nvapi-abc'' \<noteq> []" "py ''nvapi-abc'' \<noteq> py ''nvapi-YOUR_ACTUAL_API_KEY_HERE''"
    "\<not> startswith (py ''nvapi-abc'') (py ''nvapi-ziMpyqbV'')"
    by (simp_all add: py_def startswith_def)
  have t: "py ''Jane Doe'' \<noteq> []" by (simp add: py_def)
  show ?thesis
    using one_request_with_text_verbatim [OF e t k] by simp
qed

text \<open>
  Claim C4 says that the clause names the role \<open>r\<close> as it was given. The clause names
  \<^verbatim>\<open>target_job_role.strip()\<close>: for the role \<^verbatim>\<open>" Data Scientist"\<close>, with a leading
  space, the instructions are not the template followed by the clause for that string,
  and the string does not occur in them at all.
\<close>

theorem role_clause_counterexample:
  "\<not> list_all py_isspace (py '' Data Scientist'')
   \<and> system_prompt (Some (py '' Data Scientist'')) \<noteq>
       system_prompt_base @ special_consideration (py '' Data Scientist'')
   \<and> system_prompt (Some (py '' Data Scientist'')) =
       system_prompt_base @ special_consideration (py ''Data Scientist'')
   \<and> \<not> sublist (py '' Data Scientist'') (system_prompt (Some (py '' Data Scientist'')))"
proof -
  have nb: "\<not> (\<forall>c\<in>set (py '' Data Scientist''). py_isspace c)"
    by (simp add: py_def py_isspace_def)
  have st: "strip (py '' Data Scientist'') = py ''Data Scientist''"
    by (simp add: strip_def py_def py_isspace_def)
  have sp: "system_prompt (Some (py '' Data Scientist'')) =
      system_prompt_base @ special_consideration (py ''Data Scientist'')"
    using system_prompt_nonblank [OF nb] unfolding st .
  have ne: "py ''Data Scientist'' \<noteq> py '' Data Scientist''"
    by (simp add: py_def)
  have ns: "\<not> sublist (py '' Data Scientist'')
      (system_prompt_base @ special_consideration (py ''Data Scientist''))"
    by (simp add: system_prompt_base_def special_consideration_def py_def sublist_code prefix_code)
  have nb': "\<not> list_all py_isspace (py '' Data Scientist'')"
    by (simp add: py_def py_isspace_def)
  show ?thesis
    using nb' ne ns by (simp add: sp special_consideration_inject)
qed

text \<open>
  Claim C4, amended. For every role \<open>r\<close> that is not blank, the system instructions are
  the template followed by exactly one clause, which names \<open>r\<close> with the white space
  at its ends stripped; that is \<open>r\<close> itself when it neither begins nor ends with white
  space. The instructions hold the stripped role as a substring, differ from the ones
  without a role, and are the content of the first message of the request. For
  \<^verbatim>\<open>Data Scientist\<close> they hold \<^verbatim>\<open>Data Scientist\<close> and differ from the ones without
  a role.
\<close>

theorem role_clause_names_stripped_role:
  assumes "\<not> (\<forall>c\<in>set r. py_isspace c)"
  shows "system_prompt (Some r) = system_prompt_base @ special_consideration (strip r)
    \<and> special_consideration (strip r) =
        [10, 10] @ py ''**Special consideration:** The user is targeting a **'' @ strip r
        @ py ''** role. Please tailor your keyword and relevance analysis to this role.''
    \<and> sublist (strip r) (system_prompt (Some r))
    \<and> system_prompt (Some r) \<noteq> system_prompt None
    \<and> (\<not> py_isspace (hd r) \<and> \<not> py_isspace (last r) \<longrightarrow> strip r = r)
    \<and> content (hd (messages (json (build_request k resume_text (Some r))))) = system_prompt (Some r)
    \<and> sublist (py ''Data Scientist'') (system_prompt (Some (py ''Data Scientist'')))
    \<and> system_prompt (Some (py ''Data Scientist'')) \<noteq> system_prompt None"
proof -
  have r: "r \<noteq> []" using assms by auto
  have sp: "system_prompt (Some r) = system_prompt_base @ special_consideration (strip r)"
    using assms by (rule system_prompt_nonblank)
  have cl: "special_consideration (strip r) =
        [10, 10] @ py ''**Special consideration:** The user is targeting a **'' @ strip r
        @ py ''** role. Please tailor your keyword and relevance analysis to this role.''"
    by (simp only: special_consideration_def)
  have sub: "sublist (strip r) (system_prompt (Some r))"
    unfolding sp by (rule role_in_clause)
  have ne: "system_prompt (Some r) \<noteq> system_prompt None"
    unfolding sp by (rule clause_changes_prompt)
  have un: "\<not> py_isspace (hd r) \<and> \<not> py_isspace (last r) \<longrightarrow> strip r = r"
    using r by (simp add: strip_unchanged)
  have rq: "content (hd (messages (json (build_request k resume_text (Some r))))) =
      system_prompt (Some r)"
    by (simp add: system_message_of_request)
  have ds: "\<not> (\<forall>c\<in>set (py ''Data Scientist''). py_isspace c)"
    by (simp add: py_def py_isspace_def)
  have dst: "strip (py ''Data Scientist'') = py ''Data Scientist''"
    by (simp add: strip_def py_def py_isspace_def)
  have dsp: "system_prompt (Some (py ''Data Scientist'')) =
      system_prompt_base @ special_consideration (py ''Data Scientist'')"
    using system_prompt_nonblank [OF ds] unfolding dst .
  have dsub: "sublist (py ''Data Scientist'') (system_prompt (Some (py ''Data Scientist'')))"
    unfolding dsp by (rule role_in_clause)
  have dne: "system_prompt (Some (py ''Data Scientist'')) \<noteq> system_prompt None"
    unfolding dsp by (rule clause_changes_prompt)
  show ?thesis
    by (intro conjI) (rule sp cl sub ne un rq dsub dne)+
qed

theorem role_clause_names_stripped_role_witness:
  "\<not> list_all py_isspace (py '' Data Scientist '')
   \<and> system_prompt (Some (py '' Data Scientist '')) =
       system_prompt_base @ special_consideration (py ''Data Scientist'')
   \<and> system_prompt (Some (py '' Data Scientist '')) \<noteq> system_prompt None
   \<and> \<not> py_isspace (hd (py ''Data Scientist'')) \<and> \<not> py_isspace (last (py ''Data Scientist''))
   \<and> strip (py ''Data Scientist'') = py ''Data Scientist''"
proof -
  have nb: "\<not> (\<forall>c\<in>set (py '' Data Scientist ''). py_isspace c)"
    by (simp add: py_def py_isspace_def)
  have st: "strip (py '' Data Scientist '') = py ''Data Scientist''"
    by (simp add: strip_def py_def py_isspace_def)
  note t = role_clause_names_stripped_role [OF nb, of "[]" "[]"]
  have 1: "system_prompt (Some (py '' Data Scientist '')) =
      system_prompt_base @ special_consideration (strip (py '' Data Scientist ''))"
    using t by blast
  have 2: "system_prompt (Some (py '' Data Scientist '')) \<noteq> system_prompt None"
    using t by blast
  have nb': "\<not> (\<forall>c\<in>set (py ''Data Scientist''). py_isspace c)"
    by (simp add: py_def py_isspace_def)
  have ends: "\<not> py_isspace (hd (py ''Data Scientist'')) \<and> \<not> py_isspace (last (py ''Data Scientist''))"
    by (simp add: py_def py_isspace_def)
  have 3: "strip (py ''Data Scientist'') = py ''Data Scientist''"
    using role_clause_names_stripped_role [OF nb', of "[]" "[]"] ends by blast
  have nb'': "\<not> list_all py_isspace (py '' Data Scientist '')"
    by (simp add: py_def py_isspace_def)
  show ?thesis
    using nb'' 1 2 ends 3 unfolding st by blast
qed

text \<open>
  Claim C5. A role of white space only gives the system instructions of a call without
  a role, character for character; the whole request is the same.
\<close>

theorem blank_role_same_instructions:
  assumes "\<forall>c\<in>set r. py_isspace c"
  shows "system_prompt (Some r) = system_prompt None
    \<and> build_request k resume_text (Some r) = build_request k resume_text None"
proof -
  have "system_prompt (Some r) = system_prompt_base"
    using assms by (rule system_prompt_blank)
  then show ?thesis
    by (simp add: build_request_def system_prompt_None)
qed

theorem blank_role_same_instructions_witness:
  "list_all py_isspace [32, 9, 32]
   \<and> system_prompt (Some [32, 9, 32]) = system_prompt None
   \<and> build_request (py ''nvapi-abc'') (py ''Jane Doe'') (Some [32, 9, 32]) =
       build_request (py ''nvapi-abc'') (py ''Jane Doe'') None"
proof -
  have b: "\<forall>c\<in>set [32, 9, 32]. py_isspace c"
    by (simp add: py_isspace_def)
  have "list_all py_isspace [32, 9, 32]"
    by (simp add: py_isspace_def)
  then show ?thesis
    using blank_role_same_instructions [OF b] by simp
qed

section \<open>Classifying the answer\<close>

text \<open>
  Claim C6. When the status is a success and the body is an object whose \<^verbatim>\<open>choices\<close>
  array starts with an object whose \<^verbatim>\<open>message\<close> is an object with a string
  \<^verbatim>\<open>content\<close>, \<open>get_feedback_nvidia\<close> returns that string unchanged and shows nothing.
\<close>

theorem content_returned_verbatim:
  assumes "k \<noteq> []" "k \<noteq> py ''nvapi-YOUR_ACTUAL_API_KEY_HERE''"
    and "\<not> startswith k (py ''nvapi-ziMpyqbV'')"
    and "post (build_request k resume_text target_job_role) = Inr resp"
    and "200 \<le> status_code resp" and "status_code resp < 300"
    and "json_result resp = Inr (PyDict body)"
    and "map_of body (py ''choices'') = Some (PyList (PyDict first_choice # more_choices))"
    and "map_of first_choice (py ''message'') = Some (PyDict message)"
    and "map_of message (py ''content'') = Some (PyStr s)"
  shows "get_feedback_nvidia (Some k) post resume_text target_job_role =
     (PyStr s, [HttpPost (build_request k resume_text target_job_role)])"
proof -
  have "first_choice_content (PyDict body) = Inr (Some (PyStr s))"
    using assms(8-10) by (simp add: first_choice_content_def)
  moreover have "status_code resp < 400 \<or> 600 \<le> status_code resp"
    using assms(6) by simp
  ultimately show ?thesis
    using assms(1-4,7)
      get_feedback_nvidia_success [of k post resume_text target_job_role resp "PyDict body"]
    by simp
qed

theorem content_returned_verbatim_witness:
  "get_feedback_nvidia (Some (py ''nvapi-abc''))
     (returns \<lparr>status_code = 200, reason = py ''OK'', response_url = NVIDIA_API_URL,
        json_result = Inr (PyDict [(py ''choices'',
          PyList [PyDict [(py ''message'',
            PyDict [(py ''content'', PyStr (py ''### Summary'' @ [10] @ py ''...''))])]])])\<rparr>)
     (py ''Jane Doe'') None =
   (PyStr (py ''### Summary'' @ [10] @ py ''...''),
    [HttpPost (build_request (py ''nvapi-abc'') (py ''Jane Doe'') None)])"
proof -
  let ?message = "[(py ''content'', PyStr (py ''### Summary'' @ [10] @ py ''...''))]"
  let ?first = "[(py ''message'', PyDict ?message)]"
  let ?body = "[(py ''choices'', PyList [PyDict ?first])]"
  let ?resp = "\<lparr>status_code = 200, reason = py ''OK'', response_url = NVIDIA_API_URL,
        json_result = Inr (PyDict ?body)\<rparr>"
  have k: "py ''nvapi-abc'' \<noteq> []" "py ''nvapi-abc'' \<noteq> py ''nvapi-YOUR_ACTUAL_API_KEY_HERE''"
    "\<not> startswith (py ''nvapi-abc'') (py ''nvapi-ziMpyqbV'')"
    by (simp_all add: py_def startswith_def)
  show ?thesis
    using content_returned_verbatim [OF k, of "returns ?resp" "py ''Jane Doe''" None ?resp
        ?body ?first "[]" ?message "py ''### Summary'' @ [10] @ py ''...''"]
    by (simp add: returns_def)
qed

text \<open>
  Claim C7 says that every success body without the expected shape ends in the warning.
  Two kinds of body do not. On some, a test or a subscript of lines 89 to 92 raises, and
  the last handler reports an unexpected error instead: with \<^verbatim>\<open>{"choices": [null]}\<close>
  the test \<^verbatim>\<open>"message" in first_choice\<close> raises a \<^verbatim>\<open>TypeError\<close>. On others a
  \<^verbatim>\<open>content\<close> is found that is not a string, and it is returned as it is, since
  line 91 tests that the member is there and not what it holds: \<^verbatim>\<open>null\<close> is returned
  with no message shown, and the number 1.5 is returned as the feedback.
\<close>

theorem malformed_body_counterexample:
  "\<not> expected_shape (PyDict [(py ''choices'', PyList [PyNone])])
   \<and> get_feedback_nvidia (Some (py ''nvapi-abc''))
       (returns \<lparr>status_code = 200, reason = py ''OK'', response_url = NVIDIA_API_URL,
          json_result = Inr (PyDict [(py ''choices'', PyList [PyNone])])\<rparr>)
       (py ''Jane Doe'') None =
     (PyNone,
      [HttpPost (build_request (py ''nvapi-abc'') (py ''Jane Doe'') None),
       StError (unexpected_error_msg
         (py ''argument of type '' @ [39] @ py ''NoneType'' @ [39] @ py '' is not iterable''))])
   \<and> StWarning unexpected_format_msg \<notin> set (snd (get_feedback_nvidia (Some (py ''nvapi-abc''))
       (returns \<lparr>status_code = 200, reason = py ''OK'', response_url = NVIDIA_API_URL,
          json_result = Inr (PyDict [(py ''choices'', PyList [PyNone])])\<rparr>)
       (py ''Jane Doe'') None))
   \<and> \<not> expected_shape (PyDict [(py ''choices'',
         PyList [PyDict [(py ''message'', PyDict [(py ''content'', PyNone)])]])])
   \<and> get_feedback_nvidia (Some (py ''nvapi-abc''))
       (returns \<lparr>status_code = 200, reason = py ''OK'', response_url = NVIDIA_API_URL,
          json_result = Inr (PyDict [(py ''choices'',
            PyList [PyDict [(py ''message'', PyDict [(py ''content'', PyNone)])]])])\<rparr>)
       (py ''Jane Doe'') None =
     (PyNone, [HttpPost (build_request (py ''nvapi-abc'') (py ''Jane Doe'') None)])
   \<and> \<not> expected_shape (PyDict [(py ''choices'',
         PyList [PyDict [(py ''message'', PyDict [(py ''content'', PyFloat (Finite (3 / 2)))])]])])
   \<and> get_feedback_nvidia (Some (py ''nvapi-abc''))
       (returns \<lparr>status_code = 200, reason = py ''OK'', response_url = NVIDIA_API_URL,
          json_result = Inr (PyDict [(py ''choices'',
            PyList [PyDict [(py ''message'',
              PyDict [(py ''content'', PyFloat (Finite (3 / 2)))])]])])\<rparr>)
       (py ''Jane Doe'') None =
     (PyFloat (Finite (3 / 2)),
      [HttpPost (build_request (py ''nvapi-abc'') (py ''Jane Doe'') None)])"
proof -
  let ?b1 = "PyDict [(py ''choices'', PyList [PyNone])]"
  let ?b2 = "PyDict [(py ''choices'',
         PyList [PyDict [(py ''message'', PyDict [(py ''content'', PyNone)])]])]"
  let ?b3 = "PyDict [(py ''choices'',
         PyList [PyDict [(py ''message'', PyDict [(py ''content'', PyFloat (Finite (3 / 2)))])]])]"
  let ?r1 = "\<lparr>status_code = 200, reason = py ''OK'', response_url = NVIDIA_API_URL,
          json_result = Inr ?b1\<rparr>"
  let ?r2 = "\<lparr>status_code = 200, reason = py ''OK'', response_url = NVIDIA_API_URL,
          json_result = Inr ?b2\<rparr>"
  let ?r3 = "\<lparr>status_code = 200, reason = py ''OK'', response_url = NVIDIA_API_URL,
          json_result = Inr ?b3\<rparr>"
  have k: "py ''nvapi-abc'' \<noteq> []" "py ''nvapi-abc'' \<noteq> py ''nvapi-YOUR_ACTUAL_API_KEY_HERE''"
    "\<not> startswith (py ''nvapi-abc'') (py ''nvapi-ziMpyqbV'')"
    by (simp_all add: py_def startswith_def)
  have sh: "\<not> expected_shape ?b1" "\<not> expected_shape ?b2" "\<not> expected_shape ?b3"
    by (simp_all add: expected_shape_def)
  have fc1: "first_choice_content ?b1 =
      Inl (OtherException
        (py ''argument of type '' @ [39] @ py ''NoneType'' @ [39] @ py '' is not iterable''))"
    by (simp add: first_choice_content_def)
  have fc2: "first_choice_content ?b2 = Inr (Some PyNone)"
    by (simp add: first_choice_content_def)
  have fc3: "first_choice_content ?b3 = Inr (Some (PyFloat (Finite (3 / 2))))"
    by (simp add: first_choice_content_def)
  have g1: "get_feedback_nvidia (Some (py ''nvapi-abc'')) (returns ?r1) (py ''Jane Doe'') None =
     (PyNone,
      [HttpPost (build_request (py ''nvapi-abc'') (py ''Jane Doe'') None),
       StError (unexpected_error_msg
         (py ''argument of type '' @ [39] @ py ''NoneType'' @ [39] @ py '' is not iterable''))])"
    using get_feedback_nvidia_success [OF k, of "returns ?r1" "py ''Jane Doe''" None ?r1 ?b1]
    by (simp add: returns_def fc1)
  have g2: "get_feedback_nvidia (Some (py ''nvapi-abc'')) (returns ?r2) (py ''Jane Doe'') None =
     (PyNone, [HttpPost (build_request (py ''nvapi-abc'') (py ''Jane Doe'') None)])"
    using get_feedback_nvidia_success [OF k, of "returns ?r2" "py ''Jane Doe''" None ?r2 ?b2]
    by (simp add: returns_def fc2)
  have g3: "get_feedback_nvidia (Some (py ''nvapi-abc'')) (returns ?r3) (py ''Jane Doe'') None =
     (PyFloat (Finite (3 / 2)),
      [HttpPost (build_request (py ''nvapi-abc'') (py ''Jane Doe'') None)])"
    using get_feedback_nvidia_success [OF k, of "returns ?r3" "py ''Jane Doe''" None ?r3 ?b3]
    by (simp add: returns_def fc3)
  show ?thesis
    using sh g1 g2 g3 by simp
qed

text \<open>
  Claim C7, amended. Take a success response whose body has no value at
  \<^verbatim>\<open>choices[0].message.content\<close>; such a body has not the expected shape. When a part
  of the path is missing (\<^verbatim>\<open>choices\<close> is lacking or its value counts as false, an
  empty array among others; the first choice lacks \<^verbatim>\<open>message\<close>; the message lacks
  \<^verbatim>\<open>content\<close>), the warning about the response format is shown. On every other such
  body a test or a subscript raises, and the unexpected error is shown. \<^verbatim>\<open>None\<close> is
  returned in both cases. Nothing is said here about a body with a value at that place
  that is not a string.
\<close>

theorem body_without_content_warns_or_raises:
  assumes "k \<noteq> []" "k \<noteq> py ''nvapi-YOUR_ACTUAL_API_KEY_HERE''"
    and "\<not> startswith k (py ''nvapi-ziMpyqbV'')"
    and "post (build_request k resume_text target_job_role) = Inr resp"
    and "200 \<le> status_code resp" and "status_code resp < 300"
    and "json_result resp = Inr body"
    and "content_of body = None"
  shows "\<not> expected_shape body
    \<and> (missing_part body \<longrightarrow>
         get_feedback_nvidia (Some k) post resume_text target_job_role =
           (PyNone, [HttpPost (build_request k resume_text target_job_role),
                     StWarning unexpected_format_msg]))
    \<and> (\<not> missing_part body \<longrightarrow>
         (\<exists>e. get_feedback_nvidia (Some k) post resume_text target_job_role =
           (PyNone, [HttpPost (build_request k resume_text target_job_role),
                     StError (unexpected_error_msg e)])))
    \<and> fst (get_feedback_nvidia (Some k) post resume_text target_job_role) = PyNone"
proof -
  have st: "status_code resp < 400 \<or> 600 \<le> status_code resp"
    using assms(6) by simp
  note g = get_feedback_nvidia_success [OF assms(1-3), of post resume_text target_job_role
      resp body, OF assms(4) st assms(7)]
  have sh: "\<not> expected_shape body"
    using assms(8) by (simp add: expected_shape_content)
  have w: "missing_part body \<longrightarrow>
         get_feedback_nvidia (Some k) post resume_text target_job_role =
           (PyNone, [HttpPost (build_request k resume_text target_job_role),
                     StWarning unexpected_format_msg])"
    using g by (simp add: missing_part_falls_through)
  have r: "\<not> missing_part body \<longrightarrow>
         (\<exists>e. get_feedback_nvidia (Some k) post resume_text target_job_role =
           (PyNone, [HttpPost (build_request k resume_text target_job_role),
                     StError (unexpected_error_msg e)]))"
  proof
    assume "\<not> missing_part body"
    then obtain e where "first_choice_content body = Inl (OtherException e)"
      using other_bodies_raise [OF _ assms(8)] by blast
    then have "get_feedback_nvidia (Some k) post resume_text target_job_role =
           (PyNone, [HttpPost (build_request k resume_text target_job_role),
                     StError (unexpected_error_msg e)])"
      using g by simp
    then show "\<exists>e. get_feedback_nvidia (Some k) post resume_text target_job_role =
           (PyNone, [HttpPost (build_request k resume_text target_job_role),
                     StError (unexpected_error_msg e)])" ..
  qed
  have n: "fst (get_feedback_nvidia (Some k) post resume_text target_job_role) = PyNone"
    using w r by (cases "missing_part body") auto
  show ?thesis
    using sh w r n by blast
qed

theorem body_without_content_warns_or_raises_witness:
  "get_feedback_nvidia (Some (py ''nvapi-abc''))
     (returns \<lparr>status_code = 200, reason = py ''OK'', response_url = NVIDIA_API_URL,
        json_result = Inr (PyDict [(py ''choices'', PyList [])])\<rparr>)
     (py ''Jane Doe'') None =
   (PyNone, [HttpPost (build_request (py ''nvapi-abc'') (py ''Jane Doe'') None),
             StWarning unexpected_format_msg])
   \<and> get_feedback_nvidia (Some (py ''nvapi-abc''))
     (returns \<lparr>status_code = 200, reason = py ''OK'', response_url = NVIDIA_API_URL,
        json_result = Inr (PyList [])\<rparr>)
     (py ''Jane Doe'') None =
   (PyNone, [HttpPost (build_request (py ''nvapi-abc'') (py ''Jane Doe'') None),
             StWarning unexpected_format_msg])
   \<and> get_feedback_nvidia (Some (py ''nvapi-abc''))
     (returns \<lparr>status_code = 200, reason = py ''OK'', response_url = NVIDIA_API_URL,
        json_result = Inr (PyStr (py ''hello''))\<rparr>)
     (py ''Jane Doe'') None =
   (PyNone, [HttpPost (build_request (py ''nvapi-abc'') (py ''Jane Doe'') None),
             StWarning unexpected_format_msg])
   \<and> get_feedback_nvidia (Some (py ''nvapi-abc''))
     (returns \<lparr>status_code = 200, reason = py ''OK'', response_url = NVIDIA_API_URL,
        json_result = Inr (PyDict [(py ''choices'', PyList [PyStr (py ''abc'')])])\<rparr>)
     (py ''Jane Doe'') None =
   (PyNone, [HttpPost (build_request (py ''nvapi-abc'') (py ''Jane Doe'') None),
             StWarning unexpected_format_msg])
   \<and> get_feedback_nvidia (Some (py ''nvapi-abc''))
     (returns \<lparr>status_code = 200, reason = py ''OK'', response_url = NVIDIA_API_URL,
        json_result = Inr (PyDict [(py ''choices'', PyList [PyDict [(py ''message'', PyStr (py ''hi''))]])])\<rparr>)
     (py ''Jane Doe'') None =
   (PyNone, [HttpPost (build_request (py ''nvapi-abc'') (py ''Jane Doe'') None),
             StWarning unexpected_format_msg])
   \<and> get_feedback_nvidia (Some (py ''nvapi-abc''))
     (returns \<lparr>status_code = 200, reason = py ''OK'', response_url = NVIDIA_API_URL,
        json_result = Inr (PyDict [(py ''choices'', PyList [PyNone])])\<rparr>)
     (py ''Jane Doe'') None =
   (PyNone, [HttpPost (build_request (py ''nvapi-abc'') (py ''Jane Doe'') None),
             StError (unexpected_error_msg
               (py ''argument of type '' @ [39] @ py ''NoneType'' @ [39] @ py '' is not iterable''))])"
proof -
  have k: "py ''nvapi-abc'' \<noteq> []" "py ''nvapi-abc'' \<noteq> py ''nvapi-YOUR_ACTUAL_API_KEY_HERE''"
    "\<not> startswith (py ''nvapi-abc'') (py ''nvapi-ziMpyqbV'')"
    by (simp_all add: py_def startswith_def)
  let ?b1 = "PyDict [(py ''choices'', PyList [])]"
  let ?r1 = "\<lparr>status_code = 200, reason = py ''OK'', response_url = NVIDIA_API_URL,
        json_result = Inr ?b1\<rparr>"
  have c1: "content_of ?b1 = None"
    by (simp add: content_of_def object_member_def)
  have m1: "missing_part ?b1"
    by (simp add: missing_part_def lacks_def object_member_def first_element_def py_def
        sublist_code prefix_code)
  have g1: "get_feedback_nvidia (Some (py ''nvapi-abc'')) (returns ?r1) (py ''Jane Doe'') None =
     (PyNone, [HttpPost (build_request (py ''nvapi-abc'') (py ''Jane Doe'') None),
       StWarning unexpected_format_msg])"
    using body_without_content_warns_or_raises [OF k, of "returns ?r1" "py ''Jane Doe''" None
        ?r1 ?b1] c1 m1
    by (simp add: returns_def)
  let ?b2 = "PyList []"
  let ?r2 = "\<lparr>status_code = 200, reason = py ''OK'', response_url = NVIDIA_API_URL,
        json_result = Inr ?b2\<rparr>"
  have c2: "content_of ?b2 = None"
    by (simp add: content_of_def object_member_def)
  have m2: "missing_part ?b2"
    by (simp add: missing_part_def lacks_def object_member_def first_element_def py_def
        sublist_code prefix_code)
  have g2: "get_feedback_nvidia (Some (py ''nvapi-abc'')) (returns ?r2) (py ''Jane Doe'') None =
     (PyNone, [HttpPost (build_request (py ''nvapi-abc'') (py ''Jane Doe'') None),
       StWarning unexpected_format_msg])"
    using body_without_content_warns_or_raises [OF k, of "returns ?r2" "py ''Jane Doe''" None
        ?r2 ?b2] c2 m2
    by (simp add: returns_def)
  let ?b3 = "PyStr (py ''hello'')"
  let ?r3 = "\<lparr>status_code = 200, reason = py ''OK'', response_url = NVIDIA_API_URL,
        json_result = Inr ?b3\<rparr>"
  have c3: "content_of ?b3 = None"
    by (simp add: content_of_def object_member_def)
  have m3: "missing_part ?b3"
    by (simp add: missing_part_def lacks_def object_member_def first_element_def py_def
        sublist_code prefix_code)
  have g3: "get_feedback_nvidia (Some (py ''nvapi-abc'')) (returns ?r3) (py ''Jane Doe'') None =
     (PyNone, [HttpPost (build_request (py ''nvapi-abc'') (py ''Jane Doe'') None),
       StWarning unexpected_format_msg])"
    using body_without_content_warns_or_raises [OF k, of "returns ?r3" "py ''Jane Doe''" None
        ?r3 ?b3] c3 m3
    by (simp add: returns_def)
  let ?b4 = "PyDict [(py ''choices'', PyList [PyStr (py ''abc'')])]"
  let ?r4 = "\<lparr>status_code = 200, reason = py ''OK'', response_url = NVIDIA_API_URL,
        json_result = Inr ?b4\<rparr>"
  have c4: "content_of ?b4 = None"
    by (simp add: content_of_def object_member_def)
  have m4: "missing_part ?b4"
    by (simp add: missing_part_def lacks_def object_member_def first_element_def py_def
        sublist_code prefix_code)
  have g4: "get_feedback_nvidia (Some (py ''nvapi-abc'')) (returns ?r4) (py ''Jane Doe'') None =
     (PyNone, [HttpPost (build_request (py ''nvapi-abc'') (py ''Jane Doe'') None),
       StWarning unexpected_format_msg])"
    using body_without_content_warns_or_raises [OF k, of "returns ?r4" "py ''Jane Doe''" None
        ?r4 ?b4] c4 m4
    by (simp add: returns_def)
  let ?b5 = "PyDict [(py ''choices'', PyList [PyDict [(py ''message'', PyStr (py ''hi''))]])]"
  let ?r5 = "\<lparr>status_code = 200, reason = py ''OK'', response_url = NVIDIA_API_URL,
        json_result = Inr ?b5\<rparr>"
  have c5: "content_of ?b5 = None"
    by (simp add: content_of_def object_member_def)
  have m5: "missing_part ?b5"
    by (simp add: missing_part_def lacks_def object_member_def first_element_def py_def
        sublist_code prefix_code)
  have g5: "get_feedback_nvidia (Some (py ''nvapi-abc'')) (returns ?r5) (py ''Jane Doe'') None =
     (PyNone, [HttpPost (build_request (py ''nvapi-abc'') (py ''Jane Doe'') None),
       StWarning unexpected_format_msg])"
    using body_without_content_warns_or_raises [OF k, of "returns ?r5" "py ''Jane Doe''" None
        ?r5 ?b5] c5 m5
    by (simp add: returns_def)
  let ?b6 = "PyDict [(py ''choices'', PyList [PyNone])]"
  let ?r6 = "\<lparr>status_code = 200, reason = py ''OK'', response_url = NVIDIA_API_URL,
        json_result = Inr ?b6\<rparr>"
  have c6: "content_of ?b6 = None"
    by (simp add: content_of_def object_member_def)
  have m6: "\<not> missing_part ?b6"
    by (simp add: missing_part_def lacks_def object_member_def first_element_def py_def)
  have f6: "first_choice_content ?b6 = Inl (OtherException
      (py ''argument of type '' @ [39] @ py ''NoneType'' @ [39] @ py '' is not iterable''))"
    by (simp add: first_choice_content_def)
  have "\<exists>e. get_feedback_nvidia (Some (py ''nvapi-abc'')) (returns ?r6) (py ''Jane Doe'') None =
     (PyNone, [HttpPost (build_request (py ''nvapi-abc'') (py ''Jane Doe'') None),
       StError (unexpected_error_msg e)])"
    using body_without_content_warns_or_raises [OF k, of "returns ?r6" "py ''Jane Doe''" None
        ?r6 ?b6] c6 m6
    by (simp add: returns_def)
  moreover have "get_feedback_nvidia (Some (py ''nvapi-abc'')) (returns ?r6) (py ''Jane Doe'') None =
     (case first_choice_content ?b6 of
        Inl (RequestException e) \<Rightarrow>
          (PyNone, [HttpPost (build_request (py ''nvapi-abc'') (py ''Jane Doe'') None),
                    StError (network_error_msg e)])
      | Inl (OtherException e) \<Rightarrow>
          (PyNone, [HttpPost (build_request (py ''nvapi-abc'') (py ''Jane Doe'') None),
                    StError (unexpected_error_msg e)])
      | Inr (Some c) \<Rightarrow> (c, [HttpPost (build_request (py ''nvapi-abc'') (py ''Jane Doe'') None)])
      | Inr None \<Rightarrow>
          (PyNone, [HttpPost (build_request (py ''nvapi-abc'') (py ''Jane Doe'') None),
                    StWarning unexpected_format_msg]))"
    using get_feedback_nvidia_success [OF k, of "returns ?r6" "py ''Jane Doe''" None ?r6 ?b6]
    by (simp add: returns_def)
  ultimately have g6: "get_feedback_nvidia (Some (py ''nvapi-abc'')) (returns ?r6) (py ''Jane Doe'') None =
     (PyNone, [HttpPost (build_request (py ''nvapi-abc'') (py ''Jane Doe'') None),
       StError (unexpected_error_msg
         (py ''argument of type '' @ [39] @ py ''NoneType'' @ [39] @ py '' is not iterable''))])"
    by (simp add: f6)
  show ?thesis
    using g1 g2 g3 g4 g5 g6 by simp
qed

text \<open>
  Claim C8 says that every status outside 200 to 299 is a network or API error.
  \<^verbatim>\<open>raise_for_status\<close> raises for 400 to 599 only: a response with status 300 and a
  body of the expected shape is read like a success, and its content is returned.
\<close>

theorem non_2xx_counterexample:
  "\<not> (200 \<le> status_code \<lparr>status_code = 300, reason = py ''Multiple Choices'',
          response_url = NVIDIA_API_URL,
          json_result = Inr (PyDict [(py ''choices'',
            PyList [PyDict [(py ''message'',
              PyDict [(py ''content'', PyStr (py ''### Summary''))])]])])\<rparr>
        \<and> status_code \<lparr>status_code = 300, reason = py ''Multiple Choices'',
          response_url = NVIDIA_API_URL,
          json_result = Inr (PyDict [(py ''choices'',
            PyList [PyDict [(py ''message'',
              PyDict [(py ''content'', PyStr (py ''### Summary''))])]])])\<rparr> < 300)
   \<and> get_feedback_nvidia (Some (py ''nvapi-abc''))
       (returns \<lparr>status_code = 300, reason = py ''Multiple Choices'',
          response_url = NVIDIA_API_URL,
          json_result = Inr (PyDict [(py ''choices'',
            PyList [PyDict [(py ''message'',
              PyDict [(py ''content'', PyStr (py ''### Summary''))])]])])\<rparr>)
       (py ''Jane Doe'') None =
     (PyStr (py ''### Summary''),
      [HttpPost (build_request (py ''nvapi-abc'') (py ''Jane Doe'') None)])"
proof -
  let ?body = "PyDict [(py ''choices'',
            PyList [PyDict [(py ''message'',
              PyDict [(py ''content'', PyStr (py ''### Summary''))])]])]"
  let ?resp = "\<lparr>status_code = 300, reason = py ''Multiple Choices'',
          response_url = NVIDIA_API_URL, json_result = Inr ?body\<rparr>"
  have k: "py ''nvapi-abc'' \<noteq> []" "py ''nvapi-abc'' \<noteq> py ''nvapi-YOUR_ACTUAL_API_KEY_HERE''"
    "\<not> startswith (py ''nvapi-abc'') (py ''nvapi-ziMpyqbV'')"
    by (simp_all add: py_def startswith_def)
  have fc: "first_choice_content ?body = Inr (Some (PyStr (py ''### Summary'')))"
    by (simp add: first_choice_content_def)
  show ?thesis
    using get_feedback_nvidia_success [OF k, of "returns ?resp" "py ''Jane Doe''" None ?resp ?body]
    by (simp add: returns_def fc)
qed

text \<open>
  Claim C8, amended. For every response with a status from 400 to 599 (a 401 among
  them), and for every \<^verbatim>\<open>RequestException\<close> raised by the POST itself,
  \<open>get_feedback_nvidia\<close> shows the network or API error with the detail of the
  exception (for a status, the line that names the status, the reason and the URL) and
  returns \<^verbatim>\<open>None\<close>.
\<close>

theorem error_status_or_transport_failure:
  assumes "k \<noteq> []" "k \<noteq> py ''nvapi-YOUR_ACTUAL_API_KEY_HERE''"
    and "\<not> startswith k (py ''nvapi-ziMpyqbV'')"
  shows "(post (build_request k resume_text target_job_role) = Inr resp
          \<and> 400 \<le> status_code resp \<and> status_code resp < 600 \<longrightarrow>
        get_feedback_nvidia (Some k) post resume_text target_job_role =
          (PyNone,
           [HttpPost (build_request k resume_text target_job_role),
            StError (network_error_msg (str_nat (status_code resp)
              @ (if status_code resp < 500 then py '' Client Error: '' else py '' Server Error: '')
              @ reason resp @ py '' for url: '' @ response_url resp))]))
    \<and> (post (build_request k resume_text target_job_role) = Inl (RequestException e) \<longrightarrow>
        get_feedback_nvidia (Some k) post resume_text target_job_role =
          (PyNone,
           [HttpPost (build_request k resume_text target_job_role),
            StError (network_error_msg e)]))"
proof (intro conjI impI)
  assume a: "post (build_request k resume_text target_job_role) = Inr resp
          \<and> 400 \<le> status_code resp \<and> status_code resp < 600"
  then have "raise_for_status resp =
     Inl (RequestException (str_nat (status_code resp)
       @ (if status_code resp < 500 then py '' Client Error: '' else py '' Server Error: '')
       @ reason resp @ py '' for url: '' @ response_url resp))"
    by (simp add: raise_for_status_raises)
  then show "get_feedback_nvidia (Some k) post resume_text target_job_role =
          (PyNone,
           [HttpPost (build_request k resume_text target_job_role),
            StError (network_error_msg (str_nat (status_code resp)
              @ (if status_code resp < 500 then py '' Client Error: '' else py '' Server Error: '')
              @ reason resp @ py '' for url: '' @ response_url resp))])"
    using a by (simp add: get_feedback_nvidia_accepted [OF assms] get_feedback_nvidia_try_def)
next
  assume "post (build_request k resume_text target_job_role) = Inl (RequestException e)"
  then show "get_feedback_nvidia (Some k) post resume_text target_job_role =
          (PyNone,
           [HttpPost (build_request k resume_text target_job_role),
            StError (network_error_msg e)])"
    by (simp add: get_feedback_nvidia_accepted [OF assms] get_feedback_nvidia_try_def)
qed

theorem error_status_or_transport_failure_witness:
  "get_feedback_nvidia (Some (py ''nvapi-abc''))
       (returns \<lparr>status_code = 401, reason = py ''Unauthorized'', response_url = NVIDIA_API_URL,
          json_result = Inr PyNone\<rparr>)
       (py ''Jane Doe'') None =
     (PyNone,
      [HttpPost (build_request (py ''nvapi-abc'') (py ''Jane Doe'') None),
       StError (network_error_msg
         (py ''401 Client Error: Unauthorized for url: '' @ NVIDIA_API_URL))])
   \<and> get_feedback_nvidia (Some (py ''nvapi-abc''))
       (raises (RequestException (py ''Connection refused''))) (py ''Jane Doe'') None =
     (PyNone,
      [HttpPost (build_request (py ''nvapi-abc'') (py ''Jane Doe'') None),
       StError (network_error_msg (py ''Connection refused''))])"
proof -
  let ?resp = "\<lparr>status_code = 401, reason = py ''Unauthorized'', response_url = NVIDIA_API_URL,
          json_result = Inr PyNone\<rparr>"
  have k: "py ''nvapi-abc'' \<noteq> []" "py ''nvapi-abc'' \<noteq> py ''nvapi-YOUR_ACTUAL_API_KEY_HERE''"
    "\<not> startswith (py ''nvapi-abc'') (py ''nvapi-ziMpyqbV'')"
    by (simp_all add: py_def startswith_def)
  have m: "str_nat 401 @ py '' Client Error: '' @ py ''Unauthorized'' @ py '' for url: ''
        @ NVIDIA_API_URL =
      py ''401 Client Error: Unauthorized for url: '' @ NVIDIA_API_URL"
    by (simp add: str_nat.simps py_def)
  have "get_feedback_nvidia (Some (py ''nvapi-abc'')) (returns ?resp) (py ''Jane Doe'') None =
     (PyNone,
      [HttpPost (build_request (py ''nvapi-abc'') (py ''Jane Doe'') None),
       StError (network_error_msg
         (py ''401 Client Error: Unauthorized for url: '' @ NVIDIA_API_URL))])"
    using error_status_or_transport_failure [OF k, of "returns ?resp" "py ''Jane Doe''" None ?resp]
      m
    by (simp add: returns_def)
  moreover have "get_feedback_nvidia (Some (py ''nvapi-abc''))
       (raises (RequestException (py ''Connection refused''))) (py ''Jane Doe'') None =
     (PyNone,
      [HttpPost (build_request (py ''nvapi-abc'') (py ''Jane Doe'') None),
       StError (network_error_msg (py ''Connection refused''))])"
    using error_status_or_transport_failure [OF k,
        of "raises (RequestException (py ''Connection refused''))" "py ''Jane Doe''" None _
          "py ''Connection refused''"]
    by (simp add: raises_def)
  ultimately show ?thesis by simp
qed

section \<open>What the extractor returns\<close>

text \<open>
  Claim C9. \<open>extract_resume_text\<close> returns a string on every outcome of the library
  call: the empty string when the library raises (with the error shown), the empty
  string when the text is blank (with the warning shown), and the text unchanged
  otherwise. The returned value is the same in the first two cases, so the caller cannot
  tell them apart by it. The library call either raises or returns, and each case is
  covered.
\<close>

theorem extract_resume_text_always_returns:
  "(extract_text f = Inl e \<longrightarrow>
      extract_resume_text extract_text f = ([], [StError (extraction_error_msg (str_exn e))]))
   \<and> (extract_text f = Inr t \<and> (\<forall>c\<in>set t. py_isspace c) \<longrightarrow>
      extract_resume_text extract_text f = ([], [StWarning no_readable_text_msg]))
   \<and> (extract_text f = Inr t \<and> \<not> (\<forall>c\<in>set t. py_isspace c) \<longrightarrow>
      extract_resume_text extract_text f = (t, []))
   \<and> ((\<exists>e. extract_text f = Inl e) \<or> (\<exists>t. extract_text f = Inr t))"
proof -
  have "(\<exists>e. extract_text f = Inl e) \<or> (\<exists>t. extract_text f = Inr t)"
    by (cases "extract_text f") auto
  then show ?thesis
    by (auto simp: extract_resume_text_cases strip_eq_Nil_iff)
qed

theorem extract_resume_text_always_returns_witness:
  "fst (extract_resume_text (raises (OtherException (py ''No /Root object!''))) ()) = []
   \<and> fst (extract_resume_text (returns [32, 12, 10]) ()) = []
   \<and> fst (extract_resume_text (returns (py ''Jane Doe'')) ()) = py ''Jane Doe''"
proof -
  have "fst (extract_resume_text (raises (OtherException (py ''No /Root object!''))) ()) = []"
    using extract_resume_text_always_returns
      [of "raises (OtherException (py ''No /Root object!''))" "()"
        "OtherException (py ''No /Root object!'')" "[]"]
    by (simp add: raises_def)
  moreover have "fst (extract_resume_text (returns [32, 12, 10]) ()) = []"
    using extract_resume_text_always_returns [of "returns [32, 12, 10]" "()" _ "[32, 12, 10]"]
    by (simp add: returns_def py_isspace_def)
  moreover have "fst (extract_resume_text (returns (py ''Jane Doe'')) ()) = py ''Jane Doe''"
    using extract_resume_text_always_returns [of "returns (py ''Jane Doe'')" "()" _ "py ''Jane Doe''"]
    by (simp add: returns_def py_isspace_def py_def)
  ultimately show ?thesis by simp
qed

section \<open>The default role\<close>

text \<open>
  Claim C10. The second parameter of \<open>get_feedback_nvidia\<close> defaults to \<^verbatim>\<open>None\<close>,
  and \<^verbatim>\<open>None\<close> gives the same system instructions as the empty role and as any role
  of white space only: the template alone.
\<close>

theorem default_role_is_no_role:
  "target_job_role_default = None
   \<and> get_feedback_nvidia_1 API_KEY post resume_text =
       get_feedback_nvidia API_KEY post resume_text None
   \<and> system_prompt None = system_prompt_base
   \<and> system_prompt None = system_prompt (Some [])
   \<and> ((\<forall>c\<in>set r. py_isspace c) \<longrightarrow> system_prompt None = system_prompt (Some r))"
  by (simp add: target_job_role_default_def get_feedback_nvidia_1_def system_prompt_def strip_blank)

theorem default_role_is_no_role_witness:
  "list_all py_isspace [32, 12288] \<and> system_prompt None = system_prompt (Some [32, 12288])"
proof -
  have b: "\<forall>c\<in>set [32, 12288]. py_isspace c"
    by (simp add: py_isspace_def)
  have "(\<forall>c\<in>set [32, 12288]. py_isspace c) \<longrightarrow>
      system_prompt None = system_prompt (Some [32, 12288])"
    using default_role_is_no_role [of None "raises (RequestException [])" "[]" "[32, 12288]"]
    by blast
  moreover have "list_all py_isspace [32, 12288]"
    by (simp add: py_isspace_def)
  ultimately show ?thesis
    using b by blast
qed

end
